theory Spec2Isabelle
  imports Main
begin

section \<open>Python strings\<close>

text \<open>
  A Python \<^verbatim>\<open>str\<close> is modelled as a \<^typ>\<open>string\<close> whose characters are the code
  points 0 to 255. In that range the characters that \<^verbatim>\<open>str.strip()\<close> removes and
  that the pattern \<^verbatim>\<open>\s\<close> matches are 9 to 13, 28 to 32, 133 and 160, and the
  characters that \<^verbatim>\<open>\d\<close> matches are the ten ASCII digits.
\<close>

definition py_isspace :: "char \<Rightarrow> bool" where
  "py_isspace c =
     (let n = (of_char c :: nat)
      in (9 \<le> n \<and> n \<le> 13) \<or> (28 \<le> n \<and> n \<le> 32) \<or> n = 133 \<or> n = 160)"

definition py_isdecimal :: "char \<Rightarrow> bool" where
  "py_isdecimal c = (let n = (of_char c :: nat) in 48 \<le> n \<and> n \<le> 57)"

text \<open>\<^verbatim>\<open>s.strip()\<close>\<close>

definition strip :: "string \<Rightarrow> string" where
  "strip s = rev (dropWhile py_isspace (rev (dropWhile py_isspace s)))"

text \<open>\<^verbatim>\<open>s.startswith(p)\<close>\<close>

fun startswith :: "string \<Rightarrow> string \<Rightarrow> bool" where
  "startswith [] s = True"
| "startswith (p # ps) [] = False"
| "startswith (p # ps) (c # cs) = (p = c \<and> startswith ps cs)"

text \<open>
  \<^verbatim>\<open>sep in s\<close> and \<^verbatim>\<open>s.split(sep, 1)\<close> both look for the leftmost occurrence of
  \<^verbatim>\<open>sep\<close>; \<open>find_sub\<close> returns the text before it and the text after it.
\<close>

fun find_sub :: "string \<Rightarrow> string \<Rightarrow> (string \<times> string) option" where
  "find_sub sep [] = (if sep = [] then Some ([], []) else None)"
| "find_sub sep (c # cs) =
     (if startswith sep (c # cs) then Some ([], drop (length sep) (c # cs))
      else (case find_sub sep cs of
              None \<Rightarrow> None
            | Some (before, after) \<Rightarrow> Some (c # before, after)))"

definition contains :: "string \<Rightarrow> string \<Rightarrow> bool" where
  "contains sep s = (find_sub sep s \<noteq> None)"

definition split1 :: "string \<Rightarrow> string \<Rightarrow> string list" where
  "split1 sep s =
     (case find_sub sep s of None \<Rightarrow> [s] | Some (before, after) \<Rightarrow> [before, after])"

text \<open>\<^verbatim>\<open>s.split(c)\<close> for a separator of one character: never an empty list.\<close>

fun split_char :: "char \<Rightarrow> string \<Rightarrow> string list" where
  "split_char sep [] = [[]]"
| "split_char sep (c # cs) =
     (if c = sep then [] # split_char sep cs
      else (case split_char sep cs of
              w # ws \<Rightarrow> (c # w) # ws
            | [] \<Rightarrow> [[c]]))"

text \<open>
  \<^verbatim>\<open>s.replace(old, new)\<close> for a non-empty \<^verbatim>\<open>old\<close>: the occurrences are replaced from
  the left and do not overlap. The first argument counts the characters of a
  match that are still to be skipped.
\<close>

fun replace_from :: "nat \<Rightarrow> string \<Rightarrow> string \<Rightarrow> string \<Rightarrow> string" where
  "replace_from k old new [] = []"
| "replace_from (Suc k) old new (c # cs) = replace_from k old new cs"
| "replace_from 0 old new (c # cs) =
     (if old \<noteq> [] \<and> startswith old (c # cs)
      then new @ replace_from (length old - 1) old new cs
      else c # replace_from 0 old new cs)"

definition replace :: "string \<Rightarrow> string \<Rightarrow> string \<Rightarrow> string" where
  "replace old new s = replace_from 0 old new s"

text \<open>
  \<^verbatim>\<open>s.lower()\<close> on the code points 0 to 255: the ASCII capitals and the accented
  capitals 192 to 222 (but not the multiplication sign, 215) move up by 32, which
  sets the bit of weight 32.
\<close>

definition py_lower_char :: "char \<Rightarrow> char" where
  "py_lower_char c =
     (let n = (of_char c :: nat)
      in if (65 \<le> n \<and> n \<le> 90) \<or> (192 \<le> n \<and> n \<le> 222 \<and> n \<noteq> 215)
         then (case c of Char b0 b1 b2 b3 b4 b5 b6 b7 \<Rightarrow> Char b0 b1 b2 b3 b4 True b6 b7)
         else c)"

definition lower :: "string \<Rightarrow> string" where
  "lower s = map py_lower_char s"

definition tab :: char where
  "tab = CHR 0x09"

definition newline :: char where
  "newline = CHR 0x0A"

text \<open>
  \<^verbatim>\<open>while len(xs) < n: xs.append("NA")\<close>, the padding loop of \<^verbatim>\<open>process_case\<close> and of
  \<^verbatim>\<open>process_and_save_cases\<close>.
\<close>

function pad_na :: "nat \<Rightarrow> string list \<Rightarrow> string list" where
  "pad_na n xs = (if length xs < n then pad_na n (xs @ [''NA'']) else xs)"
  by pat_completeness auto
termination
  by (relation "measure (\<lambda>(n, xs). n - length xs)") auto

declare pad_na.simps [simp del]

section \<open>Evidence-line cleanup\<close>

text \<open>
  \<^verbatim>\<open>re.sub(r'^\s*\d+\.\s*', '', evidence_line)\<close>: the three classes are disjoint, so
  the greedy match is the only one: all leading whitespace, all following digits
  (at least one), a period, all following whitespace.
\<close>

definition sub_numbering :: "string \<Rightarrow> string" where
  "sub_numbering s =
     (let r = dropWhile py_isspace s;
          ds = takeWhile py_isdecimal r;
          rest = dropWhile py_isdecimal r
      in (case rest of
            c # after \<Rightarrow>
              if ds \<noteq> [] \<and> c = CHR ''.'' then dropWhile py_isspace after else s
          | [] \<Rightarrow> s))"

definition nbsp :: char where
  "nbsp = CHR 0xA0"

definition replace_nbsp :: "string \<Rightarrow> string" where
  "replace_nbsp s = map (\<lambda>c. if c = nbsp then CHR '' '' else c) s"

text \<open>The character class of the two quote patterns: apostrophe and double quote.\<close>

definition is_quote :: "char \<Rightarrow> bool" where
  "is_quote c = (c = CHR 0x27 \<or> c = CHR 0x22)"

text \<open>\<^verbatim>\<open>re.sub(r'^[\'"""]', '', cleaned)\<close>\<close>

definition sub_leading_quote :: "string \<Rightarrow> string" where
  "sub_leading_quote s = (case s of c # cs \<Rightarrow> if is_quote c then cs else s | [] \<Rightarrow> [])"

text \<open>
  \<^verbatim>\<open>re.sub(r'[\'"""]$', '', cleaned)\<close>: \<^verbatim>\<open>$\<close> matches at the end of the string and
  also just before a newline that ends the string.
\<close>

definition sub_trailing_quote :: "string \<Rightarrow> string" where
  "sub_trailing_quote s =
     (case rev s of
        c # r \<Rightarrow>
          if is_quote c then rev r
          else if c = CHR 0x0A
          then (case r of q # r' \<Rightarrow> if is_quote q then rev r' @ [c] else s | [] \<Rightarrow> s)
          else s
      | [] \<Rightarrow> [])"

definition clean_evidence_line :: "string \<Rightarrow> string" where
  "clean_evidence_line evidence_line =
     strip (sub_trailing_quote (sub_leading_quote (replace_nbsp (sub_numbering evidence_line))))"

text \<open>
  A line starts with an enumeration prefix when digits (at least one) and a period
  open it.
\<close>

definition starts_numbered :: "string \<Rightarrow> bool" where
  "starts_numbered s =
     (takeWhile py_isdecimal s \<noteq> [] \<and>
      (case dropWhile py_isdecimal s of c # _ \<Rightarrow> c = CHR ''.'' | [] \<Rightarrow> False))"

text \<open>
  A line is stripped when no whitespace opens or ends it; it has an outer quote
  when a quotation mark opens or ends it.
\<close>

definition stripped :: "string \<Rightarrow> bool" where
  "stripped s = (s = [] \<or> (\<not> py_isspace (hd s) \<and> \<not> py_isspace (last s)))"

definition has_outer_quote :: "string \<Rightarrow> bool" where
  "has_outer_quote s = (s \<noteq> [] \<and> (is_quote (hd s) \<or> is_quote (last s)))"

section \<open>The language-model processor\<close>

text \<open>
  A call to a client either returns a response text or raises; \<open>Raises\<close> carries
  \<^verbatim>\<open>str(e)\<close>. A client is the sequence of the outcomes of its successive calls.
\<close>

datatype outcome = Returns string | Raises string

text \<open>Values that \<^verbatim>\<open>ast.literal_eval\<close> can produce (tuples, dicts and sets left out).\<close>

datatype pyval = PNone | PBool bool | PInt int | PStr string | PList "pyval list"

text \<open>
  The fields of \<^verbatim>\<open>LLMProcessor\<close>. The tokenizer (\<^verbatim>\<open>count_tokens\<close>, from tiktoken), the
  prompt texts, the formatting of the comparison prompt and \<^verbatim>\<open>ast.literal_eval\<close>
  (\<open>None\<close> where it raises) are not part of the repository and are parameters. The
  tokenizer is taken to return a count for every text.
\<close>

record processor =
  token_limit :: int
  count_tokens :: "string \<Rightarrow> int"
  gemini_client :: "nat \<Rightarrow> outcome"
  openai_client :: "nat \<Rightarrow> outcome"
  gemini_prompt_templates :: "string list"
  openai_prompt :: string
  extraction_prompt :: "string list \<Rightarrow> string list \<Rightarrow> string"
  literal_eval :: "string \<Rightarrow> pyval option"

text \<open>
  What a run has done so far: the number of calls made to each client and the
  \<^verbatim>\<open>time.sleep\<close> durations, in order.
\<close>

record run_state =
  gemini_calls :: nat
  openai_calls :: nat
  sleeps :: "nat list"

definition initial_state :: run_state where
  "initial_state = \<lparr>gemini_calls = 0, openai_calls = 0, sleeps = []\<rparr>"

definition wait_time :: nat where
  "wait_time = 60"

text \<open>The retry loop of \<^verbatim>\<open>extract_gemini_output\<close>, with \<^verbatim>\<open>max_retries = 5\<close>.\<close>

function gemini_attempts :: "processor \<Rightarrow> nat \<Rightarrow> run_state \<Rightarrow> string \<times> run_state" where
  "gemini_attempts P attempt st =
     (if attempt < 5 then
        (case gemini_client P (gemini_calls st) of
           Returns text \<Rightarrow> (strip text, st\<lparr>gemini_calls := gemini_calls st + 1\<rparr>)
         | Raises e \<Rightarrow>
             gemini_attempts P (attempt + 1)
               (st\<lparr>gemini_calls := gemini_calls st + 1, sleeps := sleeps st @ [wait_time]\<rparr>))
      else (''Error: Failed after 5 attempts.'', st))"
  by pat_completeness auto
termination
  by (relation "measure (\<lambda>(P, attempt, st). 5 - attempt)") auto

declare gemini_attempts.simps [simp del]

definition extract_gemini_output :: "processor \<Rightarrow> string \<Rightarrow> run_state \<Rightarrow> string \<times> run_state" where
  "extract_gemini_output P prompt st =
     (let input_tokens = count_tokens P prompt;
          max_completion_tokens = min (token_limit P - input_tokens - 100) 500000
      in if max_completion_tokens < 1000 then (''Error: Input too large.'', st)
         else gemini_attempts P 0 st)"

definition extract_gemini_case_output ::
    "processor \<Rightarrow> string \<Rightarrow> string \<Rightarrow> string \<Rightarrow> run_state \<Rightarrow> string \<times> run_state" where
  "extract_gemini_case_output P prompt_template case_title case_details st =
     (let prompt = ''Extract the required legal data from '' @ case_title @ '':''
                   @ [newline, newline] @ case_details;
          full_prompt = replace ''{content}'' prompt prompt_template
      in extract_gemini_output P full_prompt st)"

text \<open>A call failed; a call failed with a message that mentions a rate limit.\<close>

definition raises :: "outcome \<Rightarrow> bool" where
  "raises out = (case out of Raises e \<Rightarrow> True | Returns text \<Rightarrow> False)"

definition rate_limited :: "outcome \<Rightarrow> bool" where
  "rate_limited out =
     (case out of Raises e \<Rightarrow> contains ''rate limit'' (lower e) | Returns text \<Rightarrow> False)"

definition answers_marker :: string where
  "answers_marker = ''|||ANSWERS|||''"

definition evidence_marker :: string where
  "evidence_marker = ''|||EVIDENCE|||''"

text \<open>
  \<^verbatim>\<open>process_gemini_output\<close>. Inside the \<^verbatim>\<open>try\<close>, indexing the split with \<^verbatim>\<open>[1]\<close> and
  unpacking the second split into two names raise when a list has one element; the
  \<^verbatim>\<open>except\<close> branch then sets both results.
\<close>

definition error_answers :: string where
  "error_answers = ''Error'' @ [tab] @ ''Error'' @ [tab] @ ''Error'' @ [tab] @ ''Error''
                   @ [tab] @ ''Error'' @ [tab] @ ''Error''"

definition process_gemini_output :: "string \<Rightarrow> string \<times> string" where
  "process_gemini_output output =
     (if contains answers_marker output \<and> contains evidence_marker output then
        (case split1 answers_marker output of
           [before, answer_and_evidence] \<Rightarrow>
             (case split1 evidence_marker answer_and_evidence of
                [answers, evidence] \<Rightarrow> (strip answers, strip evidence)
              | _ \<Rightarrow> (error_answers, ''Error processing output''))
         | _ \<Rightarrow> (error_answers, ''Error processing output''))
      else
        (case split1 [newline, newline] output of
           [p0] \<Rightarrow> (strip p0, ''No supporting text returned.'')
         | p0 # p1 # _ \<Rightarrow> (strip p0, strip p1)
         | [] \<Rightarrow> ([], ''No supporting text returned.'')))"

text \<open>The retry loop of \<^verbatim>\<open>extract_openai_output\<close>, with \<^verbatim>\<open>max_retries = 3\<close>.\<close>

function openai_attempts :: "processor \<Rightarrow> nat \<Rightarrow> run_state \<Rightarrow> string \<times> run_state" where
  "openai_attempts P attempt st =
     (if attempt < 3 then
        (case openai_client P (openai_calls st) of
           Returns text \<Rightarrow> (strip text, st\<lparr>openai_calls := openai_calls st + 1\<rparr>)
         | Raises e \<Rightarrow>
             (let error_message = lower e
              in if contains ''rate limit'' error_message
                 then openai_attempts P (attempt + 1)
                        (st\<lparr>openai_calls := openai_calls st + 1,
                            sleeps := sleeps st @ [wait_time]\<rparr>)
                 else (''Error'', st\<lparr>openai_calls := openai_calls st + 1\<rparr>)))
      else (''Error: Failed after 3 attempts.'', st))"
  by pat_completeness auto
termination
  by (relation "measure (\<lambda>(P, attempt, st). 3 - attempt)") auto

declare openai_attempts.simps [simp del]

definition extract_openai_output ::
    "processor \<Rightarrow> string \<Rightarrow> string \<Rightarrow> string \<Rightarrow> run_state \<Rightarrow> string \<times> run_state" where
  "extract_openai_output P instructions case_name case_details st = openai_attempts P 0 st"

text \<open>
  \<^verbatim>\<open>compare_llm_output\<close>: whatever \<^verbatim>\<open>ast.literal_eval\<close> returns is returned; only when it
  raises is the list of \<^verbatim>\<open>True\<close> built.
\<close>

definition compare_llm_output ::
    "processor \<Rightarrow> string list \<Rightarrow> string list \<Rightarrow> run_state \<Rightarrow> pyval \<times> run_state" where
  "compare_llm_output P output_1 output_2 st =
     (let full_prompt = extraction_prompt P output_1 output_2;
          (response, st') = extract_gemini_output P full_prompt st
      in (case literal_eval P response of
            Some v \<Rightarrow> (v, st')
          | None \<Rightarrow> (PList (replicate (length output_1) (PBool True)), st')))"

text \<open>
  One round of the loop over the prompt templates in \<^verbatim>\<open>process_case\<close>: the answers
  are split on the tab, the evidence on the newline, and both are appended to the
  lists built so far. \<^verbatim>\<open>extract_gemini_case_output\<close> returns a string here, so the
  branches of the source for \<^verbatim>\<open>None\<close> and for an exception are not taken.
\<close>

definition gemini_round ::
    "processor \<Rightarrow> string \<Rightarrow> string \<Rightarrow> string \<Rightarrow> (string list \<times> string list) \<times> run_state
       \<Rightarrow> (string list \<times> string list) \<times> run_state" where
  "gemini_round P case_title case_details prompt_template acc =
     (case acc of ((all_fields, all_evidence), st) \<Rightarrow>
        (let (result_gemini, st') =
               extract_gemini_case_output P prompt_template case_title case_details st;
             (answers, evidence) = process_gemini_output result_gemini;
             fields = split_char tab answers;
             evidence_lines =
               map clean_evidence_line
                 (filter (\<lambda>line. strip line \<noteq> []) (split_char newline (strip evidence)))
         in ((all_fields @ fields, all_evidence @ evidence_lines), st')))"

fun gemini_rounds ::
    "processor \<Rightarrow> string \<Rightarrow> string \<Rightarrow> string list \<Rightarrow> (string list \<times> string list) \<times> run_state
       \<Rightarrow> (string list \<times> string list) \<times> run_state" where
  "gemini_rounds P case_title case_details [] acc = acc"
| "gemini_rounds P case_title case_details (t # ts) acc =
     gemini_rounds P case_title case_details ts (gemini_round P case_title case_details t acc)"

text \<open>The fields of the second backend: padded to four, then cut to four.\<close>

definition gpt_fields_of :: "string \<Rightarrow> string list" where
  "gpt_fields_of gpt_output =
     (if strip gpt_output = [] then [''NA'', ''NA'', ''NA'', ''NA'']
      else (let gpt_fields = pad_na 4 (split_char tab (strip gpt_output))
            in if length gpt_fields > 4 then take 4 gpt_fields else gpt_fields))"

definition field_indices :: "nat list" where
  "field_indices = [5, 8, 9, 10]"

definition gemini_fields_of :: "string list \<Rightarrow> string list" where
  "gemini_fields_of all_fields =
     map (\<lambda>idx. if idx < length all_fields then lower (strip (all_fields ! idx)) else ''na'')
       field_indices"

record case_results =
  all_fields :: "string list"
  all_evidence :: "string list"
  gpt_fields :: "string list"
  gemini_fields :: "string list"
  differences :: pyval

definition process_case ::
    "processor \<Rightarrow> string \<Rightarrow> string \<Rightarrow> run_state \<Rightarrow> case_results \<times> run_state" where
  "process_case P case_title case_details st =
     (let ((fields, evidence), st1) =
            gemini_rounds P case_title case_details (gemini_prompt_templates P) (([], []), st);
          fields = pad_na 13 fields;
          (gpt_output, st2) = extract_openai_output P (openai_prompt P) case_title case_details st1;
          gpt = gpt_fields_of gpt_output;
          gem = gemini_fields_of fields;
          (diff, st3) = compare_llm_output P gpt gem st2
      in (\<lparr>all_fields = fields, all_evidence = evidence, gpt_fields = gpt,
           gemini_fields = gem, differences = diff\<rparr>, st3))"

text \<open>
  A decoder for the bracketed, comma-separated lists of \<^verbatim>\<open>True\<close> and \<^verbatim>\<open>False\<close> that
  the comparison prompt asks for. On those texts it returns what
  \<^verbatim>\<open>ast.literal_eval\<close> returns; it is used to run the model on such texts only.
\<close>

definition bool_literal :: "string \<Rightarrow> pyval option" where
  "bool_literal s =
     (if strip s = ''True'' then Some (PBool True)
      else if strip s = ''False'' then Some (PBool False) else None)"

definition literal_eval_bools :: "string \<Rightarrow> pyval option" where
  "literal_eval_bools s =
     (case strip s of
        c # cs \<Rightarrow>
          if c = CHR ''['' \<and> cs \<noteq> [] \<and> last cs = CHR '']''
          then (let inner = butlast cs;
                    items = (if strip inner = [] then [] else split_char CHR '','' inner)
                in if list_all (\<lambda>i. bool_literal i \<noteq> None) items
                   then Some (PList (map (\<lambda>i. the (bool_literal i)) items))
                   else None)
          else None
      | [] \<Rightarrow> None)"

section \<open>The Excel archive\<close>

text \<open>
  A worksheet is the list of its rows, row 1 first, and a row is the list of its
  cells, column 1 first. A cell carries its value, its hyperlink target and its
  comment (text and author); fonts, fills, borders and column widths are left out.
  A value is nothing, a string, or a number, which stands for every other kind of
  value. Writing a workbook to disk and loading it again is taken to give the same
  worksheet.
\<close>

datatype cell_value = VNone | VStr string | VNum int

record cell =
  cvalue :: cell_value
  hyperlink :: "string option"
  comment :: "(string \<times> string) option"

type_synonym row = "cell list"
type_synonym sheet = "row list"

definition empty_cell :: cell where
  "empty_cell = \<lparr>cvalue = VNone, hyperlink = None, comment = None\<rparr>"

definition value_cell :: "cell_value \<Rightarrow> cell" where
  "value_cell v = \<lparr>cvalue = v, hyperlink = None, comment = None\<rparr>"

text \<open>Python's truth value of a cell value.\<close>

fun truthy :: "cell_value \<Rightarrow> bool" where
  "truthy VNone = False"
| "truthy (VStr s) = (s \<noteq> [])"
| "truthy (VNum n) = (n \<noteq> 0)"

text \<open>
  \<^verbatim>\<open>ws.max_row\<close> and \<^verbatim>\<open>ws.max_column\<close>: the largest row and column index that holds a
  cell, and 1 for a worksheet without cells.
\<close>

definition max_row :: "sheet \<Rightarrow> nat" where
  "max_row sh = max 1 (length (dropWhile (\<lambda>r. r = []) (rev sh)))"

definition max_column :: "sheet \<Rightarrow> nat" where
  "max_column sh = max 1 (fold max (map length sh) 0)"

text \<open>\<^verbatim>\<open>ws.cell(row=r, column=c)\<close>, both counted from 1; a cell not yet there is empty.\<close>

definition cell_at :: "sheet \<Rightarrow> nat \<Rightarrow> nat \<Rightarrow> cell" where
  "cell_at sh r c =
     (if 1 \<le> r \<and> r \<le> length sh \<and> 1 \<le> c \<and> c \<le> length (sh ! (r - 1))
      then sh ! (r - 1) ! (c - 1) else empty_cell)"

text \<open>Changing the cell in column \<open>c\<close> (counted from 1) of a row, creating it if needed.\<close>

definition update_cell :: "row \<Rightarrow> nat \<Rightarrow> (cell \<Rightarrow> cell) \<Rightarrow> row" where
  "update_cell r c f =
     (let r' = r @ replicate (c - length r) empty_cell
      in r'[c - 1 := f (r' ! (c - 1))])"

definition csv_header :: "string list" where
  "csv_header =
     [''Case Name'', ''Unique Name'', ''Citation'', ''Date of Judgment'',
      ''Length of marriage till IJ (include separation period)'',
      ''Length of marriage (exclude separation period)'',
      ''Number of children'',
      ''Wife's income (monthly)'',
      ''Husband's income (monthly)'',
      ''Single or dual income marriage'',
      ''Direct Contribution (Wife)'',
      ''Indirect Contribution (Wife)'',
      ''Average Ratio (Wife)'',
      ''Final Ratio'',
      ''Adjustments'',
      ''Adjustment Reason'',
      ''Custody Type'']"

definition header_row :: row where
  "header_row = map (\<lambda>h. value_cell (VStr h)) csv_header"

subsection \<open>Choosing the previous file\<close>

text \<open>
  \<^verbatim>\<open>re.compile(r'^\d{2}_\d{2}_\d{4}\.xlsx$').match(file)\<close>; the \<^verbatim>\<open>$\<close> also matches just
  before a newline that ends the name.
\<close>

definition pattern_core :: "string \<Rightarrow> bool" where
  "pattern_core s =
     (length s = 15 \<and>
      list_all py_isdecimal (take 2 s) \<and> s ! 2 = CHR ''_'' \<and>
      list_all py_isdecimal (take 2 (drop 3 s)) \<and> s ! 5 = CHR ''_'' \<and>
      list_all py_isdecimal (take 4 (drop 6 s)) \<and> drop 10 s = ''.xlsx'')"

definition file_pattern_match :: "string \<Rightarrow> bool" where
  "file_pattern_match file =
     (pattern_core file \<or> (file \<noteq> [] \<and> last file = newline \<and> pattern_core (butlast file)))"

text \<open>
  The archive folder as \<^verbatim>\<open>os.listdir\<close> and \<^verbatim>\<open>os.path.getmtime\<close> show it, and
  \<^verbatim>\<open>openpyxl.load_workbook\<close> on a file of the folder (\<open>None\<close> where it raises). Every
  path is the folder joined with a file name, so paths are compared by file name.
\<close>

record 't archive =
  files :: "(string \<times> 't) list"
  load :: "string \<Rightarrow> sheet option"

definition is_candidate :: "string option \<Rightarrow> string \<Rightarrow> bool" where
  "is_candidate exclude_path file =
     (file_pattern_match file \<and>
      \<not> (case exclude_path of None \<Rightarrow> False | Some e \<Rightarrow> e \<noteq> [] \<and> file = e))"

text \<open>
  \<^verbatim>\<open>excel_files.sort(key=lambda x: x[1], reverse=True)\<close> is stable: files with the same
  modification time keep their listing order.
\<close>

definition sort_newest_first :: "(string \<times> 't::linorder) list \<Rightarrow> (string \<times> 't) list" where
  "sort_newest_first xs = rev (sort_key snd (rev xs))"

definition find_latest_excel_file ::
    "(string \<times> 't::linorder) list \<Rightarrow> string option \<Rightarrow> string option" where
  "find_latest_excel_file listing exclude_path =
     (let excel_files = filter (\<lambda>(file, mtime). is_candidate exclude_path file) listing
      in (case sort_newest_first excel_files of
            [] \<Rightarrow> None
          | (file, mtime) # _ \<Rightarrow> Some file))"

subsection \<open>Reading the keys of the previous file\<close>

datatype py_error = AttributeError | TypeError

text \<open>
  \<^verbatim>\<open>header_map = {col: i for i, col in enumerate(headers) if col}\<close> followed by
  \<^verbatim>\<open>header_map.get("Unique Name", 1)\<close>: a later column of the same name wins.
\<close>

definition header_map :: "cell_value list \<Rightarrow> (cell_value \<rightharpoonup> nat)" where
  "header_map headers =
     fold (\<lambda>(i, col) m. if truthy col then m(col \<mapsto> i) else m) (enumerate 0 headers) Map.empty"

definition unique_name_col :: "sheet \<Rightarrow> nat" where
  "unique_name_col sh =
     (let headers = map cvalue (case sh of [] \<Rightarrow> [] | r # _ \<Rightarrow> r)
      in (case header_map headers (VStr ''Unique Name'') of None \<Rightarrow> 1 | Some i \<Rightarrow> i))"

text \<open>
  The loop over rows 2 to \<^verbatim>\<open>ws.max_row\<close>: a false value is skipped, a string is
  stripped and added, and \<^verbatim>\<open>.strip()\<close> on any other value raises.
\<close>

fun collect_keys :: "cell_value list \<Rightarrow> string set \<Rightarrow> py_error + string set" where
  "collect_keys [] existing_cases = Inr existing_cases"
| "collect_keys (case_name # rest) existing_cases =
     (if truthy case_name then
        (case case_name of
           VStr s \<Rightarrow> collect_keys rest (insert (strip s) existing_cases)
         | _ \<Rightarrow> Inl AttributeError)
      else collect_keys rest existing_cases)"

definition key_column :: "sheet \<Rightarrow> cell_value list" where
  "key_column sh =
     map (\<lambda>r. cvalue (cell_at sh r (unique_name_col sh + 1))) [2..<max_row sh + 1]"

definition read_keys :: "sheet \<Rightarrow> py_error + string set" where
  "read_keys sh = collect_keys (key_column sh) {}"

text \<open>
  \<^verbatim>\<open>load_existing_cases\<close>, given what loading the workbook gave: every exception
  ends in the empty set.
\<close>

definition load_existing_cases :: "sheet option \<Rightarrow> string set" where
  "load_existing_cases loaded =
     (case loaded of
        None \<Rightarrow> {}
      | Some sh \<Rightarrow> (case read_keys sh of Inl e \<Rightarrow> {} | Inr existing_cases \<Rightarrow> existing_cases))"

subsection \<open>Writing the new rows\<close>

text \<open>The fields of \<^verbatim>\<open>Case\<close> that the merge reads; a citation may be \<^verbatim>\<open>None\<close>.\<close>

record Case =
  title :: string
  unique_title :: string
  url :: "string option"
  citation :: "string option"
  date :: string

definition no_results :: case_results where
  "no_results = \<lparr>all_fields = [], all_evidence = [], gpt_fields = [], gemini_fields = [],
                  differences = PList []\<rparr>"

text \<open>
  The hyperlink of answer \<open>i\<close>. \<^verbatim>\<open>clean_and_encode_text\<close> works on Unicode tables and
  on \<^verbatim>\<open>urllib\<close>; it is the parameter \<open>enc\<close>. A \<^verbatim>\<open>url\<close> that is not a string is \<open>None\<close>.
\<close>

definition add_hyperlink ::
    "(string \<Rightarrow> string) \<Rightarrow> string option \<Rightarrow> string list \<Rightarrow> nat \<Rightarrow> row \<Rightarrow> row" where
  "add_hyperlink enc case_url evidence i r =
     (let col_index = 4 + i
      in if i < length evidence then
           (let evidence_line = evidence ! i
            in (case case_url of
                  Some u \<Rightarrow>
                    if evidence_line \<notin> set [''Not Discussed'', ''NA'', ''Undisclosed'']
                    then update_cell r (col_index + 1)
                           (\<lambda>c. c\<lparr>hyperlink := Some (u @ ''#:~:text='' @ enc evidence_line)\<rparr>)
                    else r
                | None \<Rightarrow> r))
         else r)"

text \<open>
  Iterating over a value and its truth value, as the mismatch loop needs them. The
  loop also fills the mismatched cells; a fill is a style and is left out. An
  exception inside the \<^verbatim>\<open>try\<close> leaves the row as it is.
\<close>

fun py_iter :: "pyval \<Rightarrow> py_error + pyval list" where
  "py_iter (PList xs) = Inr xs"
| "py_iter (PStr s) = Inr (map (\<lambda>c. PStr [c]) s)"
| "py_iter v = Inl TypeError"

fun py_bool :: "pyval \<Rightarrow> bool" where
  "py_bool PNone = False"
| "py_bool (PBool b) = b"
| "py_bool (PInt n) = (n \<noteq> 0)"
| "py_bool (PStr s) = (s \<noteq> [])"
| "py_bool (PList xs) = (xs \<noteq> [])"

definition column_map :: "nat \<rightharpoonup> nat" where
  "column_map = [0 \<mapsto> 10, 1 \<mapsto> 13, 2 \<mapsto> 14, 3 \<mapsto> 15]"

definition add_comment :: "case_results \<Rightarrow> nat \<times> pyval \<Rightarrow> row \<Rightarrow> row" where
  "add_comment res im r =
     (case im of (i, mismatch) \<Rightarrow>
        (case column_map i of
           Some col \<Rightarrow>
             if py_bool mismatch then
               (let gpt_val = (if i < length (gpt_fields res) then gpt_fields res ! i else ''NA'');
                    gemini_val =
                      (if i < length (gemini_fields res) then gemini_fields res ! i else ''NA'');
                    comment_text = ''Mismatch:'' @ [newline] @ ''GPT: '' @ gpt_val @ [newline]
                                   @ ''Gemini: '' @ gemini_val
                in update_cell r col (\<lambda>c. c\<lparr>comment := Some (comment_text, ''A2JBot'')\<rparr>))
             else r
         | None \<Rightarrow> r))"

definition add_mismatches :: "case_results \<Rightarrow> row \<Rightarrow> row" where
  "add_mismatches res r =
     (case py_iter (differences res) of
        Inl e \<Rightarrow> r
      | Inr ds \<Rightarrow> fold (add_comment res) (enumerate 0 ds) r)"

text \<open>The row written for a case that is not skipped.\<close>

definition new_record ::
    "(string \<Rightarrow> string) \<Rightarrow> (string \<rightharpoonup> case_results) \<Rightarrow> Case \<Rightarrow> row" where
  "new_record enc llm_results c =
     (let res = (case llm_results (unique_title c) of None \<Rightarrow> no_results | Some r \<Rightarrow> r);
          fields = pad_na 13 (all_fields res);
          new_row = [VStr (title c), VStr (unique_title c),
                     (case citation c of None \<Rightarrow> VNone | Some t \<Rightarrow> VStr t), VStr (date c)]
                    @ map VStr fields;
          r = map value_cell new_row;
          r = fold (add_hyperlink enc (url c) (all_evidence res)) [0..<length fields] r
      in add_mismatches res r)"

text \<open>
  The state of the loop over the cases: the worksheet being built, the counter of
  new cases and the values of the counter at which the workbook was saved. Saving
  does not change the worksheet.
\<close>

record merge_state =
  ws :: sheet
  new_case_count :: nat
  checkpoints :: "nat list"

definition process_new_case ::
    "(string \<Rightarrow> string) \<Rightarrow> (string \<rightharpoonup> case_results) \<Rightarrow> string set \<Rightarrow> Case
       \<Rightarrow> merge_state \<Rightarrow> merge_state" where
  "process_new_case enc llm_results existing_cases c st =
     (if strip (unique_title c) \<in> existing_cases then st
      else (let n = new_case_count st + 1
            in \<lparr>ws = ws st @ [new_record enc llm_results c],
                new_case_count = n,
                checkpoints = (if n mod 5 = 0 then checkpoints st @ [n] else checkpoints st)\<rparr>))"

subsection \<open>Appending the rows of the previous file\<close>

definition copy_cell :: "cell \<Rightarrow> cell" where
  "copy_cell src_cell =
     (let dst_cell = value_cell (cvalue src_cell);
          dst_cell = (case hyperlink src_cell of
                        Some h \<Rightarrow> dst_cell\<lparr>hyperlink := Some h\<rparr>
                      | None \<Rightarrow> dst_cell)
      in (case comment src_cell of
            Some (text, author) \<Rightarrow> dst_cell\<lparr>comment := Some (text, author)\<rparr>
          | None \<Rightarrow> dst_cell))"

text \<open>
  The copy of one source row: columns 1 to \<^verbatim>\<open>min(len(csv_header), max_column)\<close>.
\<close>

definition copy_row :: "sheet \<Rightarrow> nat \<Rightarrow> row" where
  "copy_row source_ws src_row =
     map (\<lambda>src_col. copy_cell (cell_at source_ws src_row src_col))
       [1..<min (length csv_header + 1) (max_column source_ws + 1)]"

text \<open>
  Source row \<open>src_row\<close> goes to row \<^verbatim>\<open>start_row + src_row - 2\<close>, where \<^verbatim>\<open>start_row\<close> is one
  past the last row written, and every copied row holds a cell: the rows are
  appended one after the other.
\<close>

definition append_existing_rows :: "sheet \<Rightarrow> sheet \<Rightarrow> sheet" where
  "append_existing_rows source_ws dst =
     fold (\<lambda>src_row dst. dst @ [copy_row source_ws src_row]) [2..<max_row source_ws + 1] dst"

subsection \<open>The merge\<close>

text \<open>
  \<^verbatim>\<open>process_and_save_cases\<close>; \<open>save_name\<close> is the file name of the day. The result is
  the worksheet of the final save and the counter of new cases.
\<close>

definition process_and_save_cases ::
    "(string \<Rightarrow> string) \<Rightarrow> ('t::linorder) archive \<Rightarrow> string \<Rightarrow> Case list
       \<Rightarrow> (string \<rightharpoonup> case_results) \<Rightarrow> sheet \<times> nat" where
  "process_and_save_cases enc arch save_name cases llm_results =
     (let latest_excel = find_latest_excel_file (files arch) (Some save_name);
          (existing_cases, source_ws) =
            (case latest_excel of
               Some f \<Rightarrow>
                 if f \<noteq> save_name then (load_existing_cases (load arch f), load arch f)
                 else ({}, None)
             | None \<Rightarrow> ({}, None));
          st = fold (process_new_case enc llm_results existing_cases) cases
                 \<lparr>ws = [header_row], new_case_count = 0, checkpoints = []\<rparr>
      in (case source_ws of
            Some src \<Rightarrow> (append_existing_rows src (ws st), new_case_count st)
          | None \<Rightarrow> (ws st, new_case_count st)))"

subsection \<open>Notions used to state the results\<close>




section \<open>Sample inputs\<close>

text \<open>A processor whose first client always fails and whose second is always rate-limited.\<close>

definition failing_processor :: processor where
  "failing_processor =
     \<lparr>token_limit = 2000000,
      count_tokens = (\<lambda>s. int (length s)),
      gemini_client = (\<lambda>n. Raises ''503 UNAVAILABLE''),
      openai_client = (\<lambda>n. Raises ''Rate limit reached for gpt-4o''),
      gemini_prompt_templates = [''First: {content}'', ''Second: {content}''],
      openai_prompt = ''Outputs should always be in a single line'',
      extraction_prompt = (\<lambda>output_1 output_2. ''compare'' @ concat output_1 @ concat output_2),
      literal_eval = literal_eval_bools\<rparr>"

text \<open>
  A processor whose first client fails twice and then answers, and whose second
  client is rate-limited once and then fails for another reason.
\<close>

definition flaky_processor :: processor where
  "flaky_processor =
     failing_processor
       \<lparr>gemini_client := (\<lambda>n. if n < 2 then Raises ''503 UNAVAILABLE'' else Returns '' ok ''),
        openai_client := (\<lambda>n. if n < 1 then Raises ''Rate limit reached for gpt-4o''
                                else Raises ''Incorrect API key provided'')\<rparr>"

text \<open>A processor whose first client answers the comparison with a list of one element.\<close>

definition short_list_processor :: processor where
  "short_list_processor = failing_processor\<lparr>gemini_client := (\<lambda>n. Returns ''[True]'')\<rparr>"





definition misordered_response :: string where
  "misordered_response = evidence_marker @ ''x'' @ answers_marker @ ''a'' @ [tab] @ ''b''"

text \<open>Two cases; the key of the second ends with a space.\<close>

definition case_a :: Case where
  "case_a = \<lparr>title = ''ABC v ABD'', unique_title = ''ABC v ABD SGHCF 12'',
             url = Some ''https://example.org/gd/2021_SGHCF_12'',
             citation = Some ''[2021] SGHCF 12'', date = ''14 Apr 2021''\<rparr>"

definition case_b :: Case where
  "case_b = \<lparr>title = ''XYZ v XYY'', unique_title = ''XYZ v XYY 2 SLR 90 '',
             url = None, citation = None, date = ''02 Mar 2022''\<rparr>"

text \<open>
  A folder listing with modification times. The file named for the later date,
  \<^verbatim>\<open>01_02_2025.xlsx\<close>, is the one modified first.
\<close>

definition sample_files :: "(string \<times> int) list" where
  "sample_files =
     [(''05_01_2025.xlsx'', 300), (''01_02_2025.xlsx'', 100), (''02_02_2025.xlsx'', 400),
      (''notes.txt'', 900)]"



text \<open>
  Archives: one on 2 February whose file of 5 January holds the given worksheet
  (or does not load), one on 2 February with no earlier file, one on 5 January
  with no earlier file, and one on 3 February whose file of 2 February holds the
  given worksheet.
\<close>

definition sample_archive :: "sheet option \<Rightarrow> int archive" where
  "sample_archive prior =
     \<lparr>files = sample_files,
      load = (\<lambda>f. if f = ''05_01_2025.xlsx'' then prior else None)\<rparr>"


definition first_archive :: "int archive" where
  "first_archive = \<lparr>files = [(''05_01_2025.xlsx'', 300)], load = (\<lambda>f. None)\<rparr>"



definition wide_results :: "string \<rightharpoonup> case_results" where
  "wide_results =
     [unique_title case_a \<mapsto>
        \<lparr>all_fields = [''11 years'', ''10 years'', ''2'', ''$3000'', ''$5000'', ''Dual'', ''extra'',
                       ''30'', ''60'', ''45'', ''55'', ''Plus 10'', ''Indirect contributions'',
                       ''Sole Custody''],
         all_evidence = [],
         gpt_fields = [''Dual'', ''45'', ''55'', ''Plus 10''],
         gemini_fields = [''dual'', ''45'', ''55'', ''plus 10''],
         differences = PList [PBool False, PBool False, PBool False, PBool False]\<rparr>]"


definition wide_snapshot :: sheet where
  "wide_snapshot =
     fst (process_and_save_cases (\<lambda>s. s) first_archive ''05_01_2025.xlsx'' [case_a] wide_results)"


section \<open>Evidence-line cleanup: results\<close>

lemma strip_prefix: "\<exists>w. dropWhile py_isspace s = strip s @ w"
proof -
  let ?t = "dropWhile py_isspace s"
  have "?t = rev (takeWhile py_isspace (rev ?t) @ dropWhile py_isspace (rev ?t))"
    by (simp only: takeWhile_dropWhile_id rev_rev_ident)
  then have "?t = strip s @ rev (takeWhile py_isspace (rev ?t))"
    by (simp only: rev_append strip_def)
  then show ?thesis by blast
qed

lemma stripped_strip: "stripped (strip s)"
proof (cases "strip s = []")
  case True
  then show ?thesis by (simp add: stripped_def)
next
  case False
  obtain w where w: "dropWhile py_isspace s = strip s @ w"
    using strip_prefix by blast
  with False have "hd (strip s) = hd (dropWhile py_isspace s)" by simp
  moreover have "dropWhile py_isspace s \<noteq> []" using w False by simp
  ultimately have h: "\<not> py_isspace (hd (strip s))"
    using hd_dropWhile[of py_isspace s] by simp
  let ?u = "dropWhile py_isspace (rev (dropWhile py_isspace s))"
  have une: "?u \<noteq> []" using False by (simp add: strip_def)
  have "last (strip s) = hd ?u" using une by (simp add: strip_def last_rev)
  then have "\<not> py_isspace (last (strip s))"
    using hd_dropWhile[OF une] by simp
  with h show ?thesis by (simp add: stripped_def)
qed

lemma dropWhile_stripped: "stripped s \<Longrightarrow> dropWhile py_isspace s = s"
  by (cases s) (auto simp: stripped_def)

lemma strip_stripped: "stripped s \<Longrightarrow> strip s = s"
proof -
  assume a: "stripped s"
  show ?thesis
  proof (cases "s = []")
    case True then show ?thesis by (simp add: strip_def)
  next
    case False
    with a have "\<not> py_isspace (hd (rev s))" by (simp add: stripped_def hd_rev)
    then have "dropWhile py_isspace (rev s) = rev s" using False by (cases "rev s") auto
    then show ?thesis using a by (simp add: strip_def dropWhile_stripped)
  qed
qed

lemma strip_strip: "strip (strip s) = strip s"
  by (simp add: strip_stripped stripped_strip)

lemma set_strip: "set (strip s) \<subseteq> set s"
proof -
  have "set (strip s) \<subseteq> set (dropWhile py_isspace s)"
    using strip_prefix[of s] by (metis set_append Un_upper1)
  also have "\<dots> \<subseteq> set s" by (metis set_dropWhileD subsetI)
  finally show ?thesis .
qed

lemma set_sub_leading_quote: "set (sub_leading_quote s) \<subseteq> set s"
  by (cases s) (auto simp: sub_leading_quote_def)

lemma set_sub_trailing_quote: "set (sub_trailing_quote s) \<subseteq> set s"
proof (cases "rev s")
  case Nil then show ?thesis by (simp add: sub_trailing_quote_def)
next
  case (Cons c r)
  then have s: "s = rev r @ [c]" by (metis rev.simps(2) rev_rev_ident)
  show ?thesis
  proof (cases r)
    case Nil
    then show ?thesis using Cons s by (auto simp: sub_trailing_quote_def)
  next
    case (Cons q r')
    then show ?thesis using \<open>rev s = c # r\<close> s by (auto simp: sub_trailing_quote_def)
  qed
qed

lemma nbsp_free_replace: "nbsp \<notin> set (replace_nbsp s)"
  by (auto simp: replace_nbsp_def nbsp_def)

lemma nbsp_free_clean: "nbsp \<notin> set (clean_evidence_line s)"
  unfolding clean_evidence_line_def
  using set_strip set_sub_trailing_quote set_sub_leading_quote nbsp_free_replace
  by (meson subsetD)

lemma replace_nbsp_id: "nbsp \<notin> set s \<Longrightarrow> replace_nbsp s = s"
  by (induction s) (auto simp: replace_nbsp_def)

lemma sub_numbering_id:
  assumes "stripped s" and "\<not> starts_numbered s"
  shows "sub_numbering s = s"
proof (cases "dropWhile py_isdecimal s")
  case Nil
  show ?thesis
    unfolding sub_numbering_def Let_def dropWhile_stripped[OF assms(1)] Nil by simp
next
  case (Cons c rest)
  with assms(2) have "takeWhile py_isdecimal s = [] \<or> c \<noteq> CHR ''.''"
    by (simp add: starts_numbered_def)
  then show ?thesis
    unfolding sub_numbering_def Let_def dropWhile_stripped[OF assms(1)] Cons by auto
qed

lemma sub_leading_quote_id: "\<not> has_outer_quote s \<Longrightarrow> sub_leading_quote s = s"
  by (cases s) (auto simp: sub_leading_quote_def has_outer_quote_def)

lemma newline_space: "py_isspace (CHR 0x0A)"
  by (simp add: py_isspace_def)

lemma sub_trailing_quote_id:
  assumes "stripped s" and "\<not> has_outer_quote s"
  shows "sub_trailing_quote s = s"
proof (cases "rev s")
  case Nil then show ?thesis by (simp add: sub_trailing_quote_def)
next
  case (Cons c r)
  then have ne: "s \<noteq> []" by auto
  have "last s = c" using Cons by (metis last_rev list.sel(1) rev_rev_ident hd_rev)
  then have "\<not> is_quote c" "\<not> py_isspace c"
    using assms ne by (auto simp: has_outer_quote_def stripped_def)
  then have "c \<noteq> CHR 0x0A" using newline_space by auto
  with \<open>\<not> is_quote c\<close> Cons show ?thesis by (simp add: sub_trailing_quote_def)
qed

lemma clean_fixed:
  assumes "stripped t" "nbsp \<notin> set t" "\<not> starts_numbered t" "\<not> has_outer_quote t"
  shows "clean_evidence_line t = t"
  using assms
  by (simp add: clean_evidence_line_def sub_numbering_id replace_nbsp_id sub_leading_quote_id
      sub_trailing_quote_id strip_stripped)

lemma stripped_clean: "stripped (clean_evidence_line s)"
  by (simp add: clean_evidence_line_def stripped_strip)

text \<open>
  C8, as stated: cleaning a cleaned line returns it unchanged. It fails on a line
  with two enumeration prefixes: each cleanup removes one.
\<close>

theorem clean_evidence_line_not_idempotent:
  "clean_evidence_line (clean_evidence_line ''1. 2. x'') \<noteq> clean_evidence_line ''1. 2. x''"
  by (simp add: clean_evidence_line_def sub_numbering_def py_isspace_def py_isdecimal_def
      strip_def replace_nbsp_def nbsp_def sub_leading_quote_def sub_trailing_quote_def
      is_quote_def)

text \<open>
  C8, amended: when the cleaned line does not itself start with an enumeration
  prefix and neither starts nor ends with a quotation mark, cleaning it again
  returns it unchanged.
\<close>

theorem clean_evidence_line_idempotent_when_settled:
  assumes "\<not> starts_numbered (clean_evidence_line s)"
    and "\<not> has_outer_quote (clean_evidence_line s)"
  shows "clean_evidence_line (clean_evidence_line s) = clean_evidence_line s"
  using assms by (intro clean_fixed stripped_clean nbsp_free_clean)

theorem clean_evidence_line_idempotent_witness:
  "\<not> starts_numbered (clean_evidence_line ''1. \"married in 2005\"'') \<and>
   \<not> has_outer_quote (clean_evidence_line ''1. \"married in 2005\"'') \<and>
   clean_evidence_line ''1. \"married in 2005\"'' = ''married in 2005'' \<and>
   clean_evidence_line (clean_evidence_line ''1. \"married in 2005\"'') =
     clean_evidence_line ''1. \"married in 2005\"''"
proof -
  have c: "clean_evidence_line ''1. \"married in 2005\"'' = ''married in 2005''"
    by (simp add: clean_evidence_line_def sub_numbering_def py_isspace_def py_isdecimal_def
        strip_def replace_nbsp_def nbsp_def sub_leading_quote_def sub_trailing_quote_def
        is_quote_def)
  have n: "\<not> starts_numbered (clean_evidence_line ''1. \"married in 2005\"'')"
    by (simp add: c starts_numbered_def py_isdecimal_def)
  have q: "\<not> has_outer_quote (clean_evidence_line ''1. \"married in 2005\"'')"
    by (simp add: c has_outer_quote_def is_quote_def)
  show ?thesis
    using n q c clean_evidence_line_idempotent_when_settled [OF n q] by simp
qed

section \<open>The first backend: budget guard\<close>

text \<open>
  C7: when the token limit minus the token count of the prompt minus 100 is below
  1000, the call to the first backend returns the budget error at once; the run
  state is unchanged, so no call was made and nothing slept.
\<close>

theorem budget_guard:
  assumes "token_limit P - count_tokens P prompt - 100 < 1000"
  shows "extract_gemini_output P prompt st = (''Error: Input too large.'', st)"
  using assms by (simp add: extract_gemini_output_def Let_def)

theorem budget_guard_witness:
  "token_limit (failing_processor\<lparr>token_limit := 1100\<rparr>)
     - count_tokens (failing_processor\<lparr>token_limit := 1100\<rparr>) ''a long prompt'' - 100 < 1000 \<and>
   extract_gemini_output (failing_processor\<lparr>token_limit := 1100\<rparr>) ''a long prompt'' initial_state
     = (''Error: Input too large.'', initial_state)"
proof -
  have h: "token_limit (failing_processor\<lparr>token_limit := 1100\<rparr>)
     - count_tokens (failing_processor\<lparr>token_limit := 1100\<rparr>) ''a long prompt'' - 100 < 1000"
    by (simp add: failing_processor_def)
  show ?thesis using h budget_guard [OF h, of initial_state] by simp
qed

section \<open>Retries\<close>

lemma gemini_attempts_exhaust:
  "a + k = 5 \<Longrightarrow> \<forall>i<k. raises (gemini_client P (gemini_calls st + i)) \<Longrightarrow>
   gemini_attempts P a st =
     (''Error: Failed after 5 attempts.'',
      st\<lparr>gemini_calls := gemini_calls st + k, sleeps := sleeps st @ replicate k wait_time\<rparr>)"
proof (induction k arbitrary: a st)
  case 0
  then show ?case by (simp add: gemini_attempts.simps)
next
  case (Suc k)
  from Suc.prems(2) have "raises (gemini_client P (gemini_calls st))" by force
  then obtain e where e: "gemini_client P (gemini_calls st) = Raises e"
    by (auto simp: raises_def split: outcome.splits)
  let ?st = "st\<lparr>gemini_calls := gemini_calls st + 1, sleeps := sleeps st @ [wait_time]\<rparr>"
  have "\<forall>i<k. raises (gemini_client P (gemini_calls ?st + i))"
    using Suc.prems(2) by (auto simp: less_Suc_eq_0_disj)
  moreover have "(a + 1) + k = 5" using Suc.prems(1) by simp
  ultimately have "gemini_attempts P (a + 1) ?st =
     (''Error: Failed after 5 attempts.'',
      ?st\<lparr>gemini_calls := gemini_calls ?st + k, sleeps := sleeps ?st @ replicate k wait_time\<rparr>)"
    by (rule Suc.IH[rotated])
  moreover have "a < 5" using Suc.prems(1) by simp
  ultimately show ?case
    using e by (subst gemini_attempts.simps) (simp add: replicate_app_Cons_same)
qed

lemma gemini_attempts_return:
  "a + k < 5 \<Longrightarrow> \<forall>i<k. raises (gemini_client P (gemini_calls st + i)) \<Longrightarrow>
   gemini_client P (gemini_calls st + k) = Returns t \<Longrightarrow>
   gemini_attempts P a st =
     (strip t,
      st\<lparr>gemini_calls := gemini_calls st + k + 1, sleeps := sleeps st @ replicate k wait_time\<rparr>)"
proof (induction k arbitrary: a st)
  case 0
  then show ?case by (subst gemini_attempts.simps) simp
next
  case (Suc k)
  from Suc.prems(2) have "raises (gemini_client P (gemini_calls st))" by force
  then obtain e where e: "gemini_client P (gemini_calls st) = Raises e"
    by (auto simp: raises_def split: outcome.splits)
  let ?st = "st\<lparr>gemini_calls := gemini_calls st + 1, sleeps := sleeps st @ [wait_time]\<rparr>"
  have 1: "\<forall>i<k. raises (gemini_client P (gemini_calls ?st + i))"
    using Suc.prems(2) by (auto simp: less_Suc_eq_0_disj)
  have 2: "(a + 1) + k < 5" using Suc.prems(1) by simp
  have 3: "gemini_client P (gemini_calls ?st + k) = Returns t" using Suc.prems(3) by simp
  have "gemini_attempts P (a + 1) ?st =
     (strip t,
      ?st\<lparr>gemini_calls := gemini_calls ?st + k + 1, sleeps := sleeps ?st @ replicate k wait_time\<rparr>)"
    by (rule Suc.IH[OF 2 1 3])
  moreover have "a < 5" using Suc.prems(1) by simp
  ultimately show ?case
    using e by (subst gemini_attempts.simps) (simp add: replicate_app_Cons_same)
qed

lemma rate_limited_Raises:
  "rate_limited out \<Longrightarrow> \<exists>e. out = Raises e \<and> contains ''rate limit'' (lower e)"
  by (cases out) (auto simp: rate_limited_def)

lemma openai_attempts_exhaust:
  "a + k = 3 \<Longrightarrow> \<forall>i<k. rate_limited (openai_client P (openai_calls st + i)) \<Longrightarrow>
   openai_attempts P a st =
     (''Error: Failed after 3 attempts.'',
      st\<lparr>openai_calls := openai_calls st + k, sleeps := sleeps st @ replicate k wait_time\<rparr>)"
proof (induction k arbitrary: a st)
  case 0
  then show ?case by (simp add: openai_attempts.simps)
next
  case (Suc k)
  from Suc.prems(2) have "rate_limited (openai_client P (openai_calls st))" by force
  then obtain e where e: "openai_client P (openai_calls st) = Raises e"
      "contains ''rate limit'' (lower e)"
    using rate_limited_Raises by blast
  let ?st = "st\<lparr>openai_calls := openai_calls st + 1, sleeps := sleeps st @ [wait_time]\<rparr>"
  have 1: "\<forall>i<k. rate_limited (openai_client P (openai_calls ?st + i))"
    using Suc.prems(2) by (auto simp: less_Suc_eq_0_disj)
  have 2: "(a + 1) + k = 3" using Suc.prems(1) by simp
  have "openai_attempts P (a + 1) ?st =
     (''Error: Failed after 3 attempts.'',
      ?st\<lparr>openai_calls := openai_calls ?st + k, sleeps := sleeps ?st @ replicate k wait_time\<rparr>)"
    by (rule Suc.IH[OF 2 1])
  moreover have "a < 3" using Suc.prems(1) by simp
  ultimately show ?case
    using e by (subst openai_attempts.simps) (simp add: replicate_app_Cons_same)
qed

lemma openai_attempts_stop:
  "a + k < 3 \<Longrightarrow> \<forall>i<k. rate_limited (openai_client P (openai_calls st + i)) \<Longrightarrow>
   \<not> rate_limited (openai_client P (openai_calls st + k)) \<Longrightarrow>
   openai_attempts P a st =
     ((case openai_client P (openai_calls st + k) of
         Returns t \<Rightarrow> strip t | Raises e \<Rightarrow> ''Error''),
      st\<lparr>openai_calls := openai_calls st + k + 1, sleeps := sleeps st @ replicate k wait_time\<rparr>)"
proof (induction k arbitrary: a st)
  case 0
  then show ?case
    by (subst openai_attempts.simps) (simp add: rate_limited_def split: outcome.splits)
next
  case (Suc k)
  from Suc.prems(2) have "rate_limited (openai_client P (openai_calls st))" by force
  then obtain e where e: "openai_client P (openai_calls st) = Raises e"
      "contains ''rate limit'' (lower e)"
    using rate_limited_Raises by blast
  let ?st = "st\<lparr>openai_calls := openai_calls st + 1, sleeps := sleeps st @ [wait_time]\<rparr>"
  have 1: "\<forall>i<k. rate_limited (openai_client P (openai_calls ?st + i))"
    using Suc.prems(2) by (auto simp: less_Suc_eq_0_disj)
  have 2: "(a + 1) + k < 3" using Suc.prems(1) by simp
  have 3: "\<not> rate_limited (openai_client P (openai_calls ?st + k))" using Suc.prems(3) by simp
  have "openai_attempts P (a + 1) ?st =
     ((case openai_client P (openai_calls ?st + k) of
         Returns t \<Rightarrow> strip t | Raises e \<Rightarrow> ''Error''),
      ?st\<lparr>openai_calls := openai_calls ?st + k + 1, sleeps := sleeps ?st @ replicate k wait_time\<rparr>)"
    by (rule Suc.IH[OF 2 1 3])
  moreover have "a < 3" using Suc.prems(1) by simp
  ultimately show ?case
    using e by (subst openai_attempts.simps) (simp add: replicate_app_Cons_same)
qed

lemma extract_gemini_output_eq:
  "extract_gemini_output P prompt st =
     (if token_limit P - count_tokens P prompt - 100 < 1000 then (''Error: Input too large.'', st)
      else gemini_attempts P 0 st)"
  by (simp add: extract_gemini_output_def Let_def min_def)

text \<open>
  C6, as stated: when the first backend fails five times, the field values of the
  result are all the sentinel \<^verbatim>\<open>"Error"\<close>. With a client that always fails, no field
  of the case is \<^verbatim>\<open>"Error"\<close>: the text \<^verbatim>\<open>"Error: Failed after 5 attempts."\<close> is parsed
  as one answer of each prompt and the rest is padding.
\<close>

theorem exhausted_fields_are_not_error:
  "''Error'' \<notin> set (all_fields (fst (process_case failing_processor ''Case'' ''text'' initial_state)))"
  by code_simp

text \<open>
  C6, amended. First backend, within budget: while calls fail, each failure is
  followed by a sleep of \<open>wait_time\<close> and another call; after five failures the text
  \<^verbatim>\<open>"Error: Failed after 5 attempts."\<close> is returned, and a call that answers earlier
  returns its stripped text. Second backend: only failures whose message mentions
  a rate limit are slept on and retried, three at most, then
  \<^verbatim>\<open>"Error: Failed after 3 attempts."\<close> is returned; the first other outcome ends the
  loop, with \<^verbatim>\<open>"Error"\<close> for a failure, and no further call or sleep.
\<close>

theorem retry_policy:
  "(\<not> token_limit P - count_tokens P prompt - 100 < 1000 \<and>
    (\<forall>i<k. raises (gemini_client P (gemini_calls st + i))) \<longrightarrow>
      (k = 5 \<longrightarrow>
         extract_gemini_output P prompt st =
           (''Error: Failed after 5 attempts.'',
            st\<lparr>gemini_calls := gemini_calls st + 5,
               sleeps := sleeps st @ replicate 5 wait_time\<rparr>)) \<and>
      (k < 5 \<and> gemini_client P (gemini_calls st + k) = Returns t \<longrightarrow>
         extract_gemini_output P prompt st =
           (strip t,
            st\<lparr>gemini_calls := gemini_calls st + k + 1,
               sleeps := sleeps st @ replicate k wait_time\<rparr>))) \<and>
   ((\<forall>i<j. rate_limited (openai_client P (openai_calls st + i))) \<longrightarrow>
      (j = 3 \<longrightarrow>
         extract_openai_output P instructions case_name case_details st =
           (''Error: Failed after 3 attempts.'',
            st\<lparr>openai_calls := openai_calls st + 3,
               sleeps := sleeps st @ replicate 3 wait_time\<rparr>)) \<and>
      (j < 3 \<and> \<not> rate_limited (openai_client P (openai_calls st + j)) \<longrightarrow>
         extract_openai_output P instructions case_name case_details st =
           ((case openai_client P (openai_calls st + j) of
               Returns t \<Rightarrow> strip t
             | Raises e \<Rightarrow> ''Error''),
            st\<lparr>openai_calls := openai_calls st + j + 1,
               sleeps := sleeps st @ replicate j wait_time\<rparr>)))"
proof (intro conjI impI)
  assume a: "\<not> token_limit P - count_tokens P prompt - 100 < 1000 \<and>
    (\<forall>i<k. raises (gemini_client P (gemini_calls st + i)))" and k: "k = 5"
  then have "gemini_attempts P 0 st = (''Error: Failed after 5 attempts.'',
            st\<lparr>gemini_calls := gemini_calls st + 5,
               sleeps := sleeps st @ replicate 5 wait_time\<rparr>)"
    using gemini_attempts_exhaust[of 0 5 P st] by simp
  with a show "extract_gemini_output P prompt st =
           (''Error: Failed after 5 attempts.'',
            st\<lparr>gemini_calls := gemini_calls st + 5,
               sleeps := sleeps st @ replicate 5 wait_time\<rparr>)"
    by (simp add: extract_gemini_output_eq)
next
  assume a: "\<not> token_limit P - count_tokens P prompt - 100 < 1000 \<and>
    (\<forall>i<k. raises (gemini_client P (gemini_calls st + i)))"
    and k: "k < 5 \<and> gemini_client P (gemini_calls st + k) = Returns t"
  then have "gemini_attempts P 0 st = (strip t,
            st\<lparr>gemini_calls := gemini_calls st + k + 1,
               sleeps := sleeps st @ replicate k wait_time\<rparr>)"
    using gemini_attempts_return[of 0 k P st t] by simp
  with a show "extract_gemini_output P prompt st =
           (strip t,
            st\<lparr>gemini_calls := gemini_calls st + k + 1,
               sleeps := sleeps st @ replicate k wait_time\<rparr>)"
    by (simp add: extract_gemini_output_eq)
next
  assume a: "\<forall>i<j. rate_limited (openai_client P (openai_calls st + i))" and j: "j = 3"
  then show "extract_openai_output P instructions case_name case_details st =
           (''Error: Failed after 3 attempts.'',
            st\<lparr>openai_calls := openai_calls st + 3,
               sleeps := sleeps st @ replicate 3 wait_time\<rparr>)"
    using openai_attempts_exhaust[of 0 3 P st] by (simp add: extract_openai_output_def)
next
  assume a: "\<forall>i<j. rate_limited (openai_client P (openai_calls st + i))"
    and j: "j < 3 \<and> \<not> rate_limited (openai_client P (openai_calls st + j))"
  then show "extract_openai_output P instructions case_name case_details st =
           ((case openai_client P (openai_calls st + j) of
               Returns t \<Rightarrow> strip t
             | Raises e \<Rightarrow> ''Error''),
            st\<lparr>openai_calls := openai_calls st + j + 1,
               sleeps := sleeps st @ replicate j wait_time\<rparr>)"
    using openai_attempts_stop[of 0 j P st] by (simp add: extract_openai_output_def)
qed

lemma replicate_5: "replicate 5 w = [w, w, w, w, w]"
  by (simp add: numeral_eq_Suc)

lemma replicate_3: "replicate 3 w = [w, w, w]"
  by (simp add: numeral_eq_Suc)

lemma replicate_2: "replicate 2 w = [w, w]"
  by (simp add: numeral_eq_Suc)

lemma rate_limit_message: "contains ''rate limit'' (lower ''Rate limit reached for gpt-4o'')"
  by (simp add: contains_def lower_def py_lower_char_def)

lemma other_message: "\<not> contains ''rate limit'' (lower ''Incorrect API key provided'')"
  by (simp add: contains_def lower_def py_lower_char_def)

theorem retry_policy_witness:
  "extract_gemini_output failing_processor ''prompt'' initial_state =
      (''Error: Failed after 5 attempts.'',
       \<lparr>gemini_calls = 5, openai_calls = 0, sleeps = [60, 60, 60, 60, 60]\<rparr>) \<and>
   extract_gemini_output flaky_processor ''prompt'' initial_state =
      (''ok'', \<lparr>gemini_calls = 3, openai_calls = 0, sleeps = [60, 60]\<rparr>) \<and>
   extract_openai_output failing_processor ''instructions'' ''name'' ''details'' initial_state =
      (''Error: Failed after 3 attempts.'',
       \<lparr>gemini_calls = 0, openai_calls = 3, sleeps = [60, 60, 60]\<rparr>) \<and>
   extract_openai_output flaky_processor ''instructions'' ''name'' ''details'' initial_state =
      (''Error'', \<lparr>gemini_calls = 0, openai_calls = 2, sleeps = [60]\<rparr>)"
proof -
  have b1: "\<not> token_limit failing_processor - count_tokens failing_processor ''prompt'' - 100 < 1000"
    by (simp add: failing_processor_def)
  have h1: "\<forall>i<5. raises (gemini_client failing_processor (gemini_calls initial_state + i))"
    by (simp add: failing_processor_def raises_def)
  have w1: "extract_gemini_output failing_processor ''prompt'' initial_state =
      (''Error: Failed after 5 attempts.'',
       \<lparr>gemini_calls = 5, openai_calls = 0, sleeps = [60, 60, 60, 60, 60]\<rparr>)"
    using retry_policy [of failing_processor "''prompt''" 5 initial_state] b1 h1
    by (simp add: initial_state_def wait_time_def replicate_5)
  have b2: "\<not> token_limit flaky_processor - count_tokens flaky_processor ''prompt'' - 100 < 1000"
    by (simp add: flaky_processor_def failing_processor_def)
  have h2: "\<forall>i<2. raises (gemini_client flaky_processor (gemini_calls initial_state + i))"
    by (simp add: flaky_processor_def raises_def initial_state_def)
  have r2: "gemini_client flaky_processor (gemini_calls initial_state + 2) = Returns '' ok ''"
    by (simp add: flaky_processor_def initial_state_def)
  have s2: "strip '' ok '' = ''ok''"
    by (simp add: strip_def py_isspace_def)
  have w2: "extract_gemini_output flaky_processor ''prompt'' initial_state =
      (''ok'', \<lparr>gemini_calls = 3, openai_calls = 0, sleeps = [60, 60]\<rparr>)"
    using retry_policy [of flaky_processor "''prompt''" 2 initial_state "'' ok ''"] b2 h2 r2
    by (simp add: initial_state_def wait_time_def replicate_2 s2)
  have h3: "\<forall>i<3. rate_limited (openai_client failing_processor (openai_calls initial_state + i))"
    using rate_limit_message by (simp add: failing_processor_def rate_limited_def initial_state_def)
  have w3: "extract_openai_output failing_processor ''instructions'' ''name'' ''details''
        initial_state =
      (''Error: Failed after 3 attempts.'',
       \<lparr>gemini_calls = 0, openai_calls = 3, sleeps = [60, 60, 60]\<rparr>)"
    using retry_policy [of failing_processor "''prompt''" 0 initial_state "[]" 3] h3
    by (simp add: initial_state_def wait_time_def replicate_3)
  have h4: "\<forall>i<1. rate_limited (openai_client flaky_processor (openai_calls initial_state + i))"
    using rate_limit_message by (simp add: flaky_processor_def rate_limited_def initial_state_def)
  have f4: "openai_client flaky_processor (openai_calls initial_state + 1)
              = Raises ''Incorrect API key provided''"
    by (simp add: flaky_processor_def initial_state_def)
  have n4: "\<not> rate_limited (openai_client flaky_processor (openai_calls initial_state + 1))"
    unfolding f4 rate_limited_def using other_message by simp
  have w4: "extract_openai_output flaky_processor ''instructions'' ''name'' ''details''
        initial_state =
      (''Error'', \<lparr>gemini_calls = 0, openai_calls = 2, sleeps = [60]\<rparr>)"
    using retry_policy [of flaky_processor "''prompt''" 0 initial_state "[]" 1] h4 n4
    unfolding f4 by (simp add: initial_state_def wait_time_def)
  show ?thesis using w1 w2 w3 w4 by simp
qed

section \<open>Reconciliation\<close>

text \<open>
  C5, as stated: a response that is not a list of booleans of the expected length
  gives a list of \<^verbatim>\<open>True\<close> as long as the first input. The response \<^verbatim>\<open>[True]\<close> to a
  comparison of four values is returned as it is.
\<close>

theorem short_list_returned_as_is:
  "fst (compare_llm_output short_list_processor [''Dual'', ''45'', ''55'', ''Plus 10'']
          [''dual'', ''45'', ''50'', ''plus 10''] initial_state)
     \<noteq> PList (replicate (length [''Dual'', ''45'', ''55'', ''Plus 10'']) (PBool True))"
  by code_simp

text \<open>
  C5, amended: when decoding the response raises, the result is a list of \<^verbatim>\<open>True\<close>
  as long as the first input; when decoding returns a value, that value is the
  result, whatever its type and length.
\<close>

theorem compare_llm_output_fallback:
  "(literal_eval P (fst (extract_gemini_output P (extraction_prompt P output_1 output_2) st)) = None
      \<longrightarrow> fst (compare_llm_output P output_1 output_2 st)
            = PList (replicate (length output_1) (PBool True))) \<and>
   (literal_eval P (fst (extract_gemini_output P (extraction_prompt P output_1 output_2) st)) = Some v
      \<longrightarrow> fst (compare_llm_output P output_1 output_2 st) = v)"
  by (simp add: compare_llm_output_def Let_def split: prod.splits)

theorem compare_llm_output_fallback_witness:
  "literal_eval failing_processor
      (fst (extract_gemini_output failing_processor
             (extraction_prompt failing_processor [''45''] [''45'']) initial_state)) = None \<and>
   fst (compare_llm_output failing_processor [''45''] [''45''] initial_state) = PList [PBool True] \<and>
   literal_eval short_list_processor
      (fst (extract_gemini_output short_list_processor
             (extraction_prompt short_list_processor [''45'', ''55''] [''45'', ''50''])
             initial_state)) = Some (PList [PBool True]) \<and>
   fst (compare_llm_output short_list_processor [''45'', ''55''] [''45'', ''50''] initial_state)
     = PList [PBool True]"
proof -
  have n: "literal_eval failing_processor
      (fst (extract_gemini_output failing_processor
             (extraction_prompt failing_processor [''45''] [''45'']) initial_state)) = None"
    by code_simp
  have s: "literal_eval short_list_processor
      (fst (extract_gemini_output short_list_processor
             (extraction_prompt short_list_processor [''45'', ''55''] [''45'', ''50''])
             initial_state)) = Some (PList [PBool True])"
    by code_simp
  show ?thesis
    using n s
      compare_llm_output_fallback [of failing_processor "[''45'']" "[''45'']" initial_state]
      compare_llm_output_fallback [of short_list_processor "[''45'', ''55'']" "[''45'', ''50'']"
        initial_state "PList [PBool True]"]
    by simp
qed

section \<open>Field counts\<close>





section \<open>Parsing a response of the first backend\<close>








text \<open>
  In the second case the answers are six, the number the first prompt asks for,
  also when the response answers the second prompt, which asks for seven.
\<close>

lemma error_answers_are_six:
  "process_gemini_output misordered_response = (error_answers, ''Error processing output'') \<and>
   length (split_char tab error_answers) = 6"
  by code_simp

section \<open>The Excel archive: results\<close>



























subsection \<open>The choice of the previous file\<close>



subsection \<open>Unreadable keys\<close>



subsection \<open>The values of a new row\<close>

lemma length_update_cell: "length (update_cell r c f) = max (length r) c"
  by (simp add: update_cell_def Let_def max_def)














subsection \<open>Rows and columns of a worksheet\<close>













subsection \<open>The order of the rows\<close>


text \<open>The lengths of the row before and after it is carried forward.\<close>

lemma wide_lengths:
  "map length (tl wide_snapshot) = [18] \<and>
   map length (drop 2 (fst (process_and_save_cases (\<lambda>s. s) (sample_archive (Some wide_snapshot))
                  ''02_02_2025.xlsx'' [case_b] Map.empty))) = [17]"
  by code_simp



subsection \<open>Running the merge again\<close>














end
